theory Spec2Isabelle
  imports Main
begin

section \<open>The preprocessor's macro table\<close>

text \<open>
  \<^verbatim>\<open>SensorTransmitter.h\<close> is a configuration header: apart from the declaration of
  \<^verbatim>\<open>enum struct Encoders\<close> it consists of preprocessor directives only. Its input is the
  table of macros that are defined where its conditionals are evaluated (the \<^verbatim>\<open>-D\<close> options
  of the build, such as \<^verbatim>\<open>ARDUINO_TTGO_LoRa32_V1\<close> or \<^verbatim>\<open>ESP32\<close>, which the Arduino IDE sets
  for the selected board; and whatever \<^verbatim>\<open>Arduino.h\<close> defines); its output is either the table
  after all \<^verbatim>\<open>#define\<close> directives that were reached, or the message of the \<^verbatim>\<open>#error\<close>
  directive that stopped the build.

  A macro's replacement text is kept as one token: nothing, a number, an identifier, a
  string literal, or (for the two function-like macros at the end of the header) the
  parameter list with the replacement text.
\<close>

datatype macro_body =
    Empty
  | Num nat
  | Ident string
  | Str string
  | FunLike "string list" string

type_synonym macros = "string \<rightharpoonup> macro_body"

text \<open>\<^verbatim>\<open>defined(M)\<close>\<close>

definition pp_defined :: "macros \<Rightarrow> string \<Rightarrow> bool" where
  "pp_defined env m = (env m \<noteq> None)"

text \<open>
  \<^verbatim>\<open>#define M body\<close>. Where \<^verbatim>\<open>M\<close> is defined already, the compiler warns and the new
  replacement text takes the place of the old one.
\<close>

definition pp_define :: "string \<Rightarrow> macro_body \<Rightarrow> macros \<Rightarrow> macros" where
  "pp_define m b env = env(m \<mapsto> b)"

text \<open>A run of \<^verbatim>\<open>#define\<close> directives, in the order of the source.\<close>

definition pp_defines :: "(string \<times> macro_body) list \<Rightarrow> macros \<Rightarrow> macros" where
  "pp_defines ds env = fold (\<lambda>(m, b). pp_define m b) ds env"

section \<open>\<^verbatim>\<open>enum struct Encoders\<close> (lines 65 to 71)\<close>





section \<open>The board chain (lines 129 to 213)\<close>

text \<open>
  The inner conditional of the \<^verbatim>\<open>ARDUINO_DFROBOT_FIREBEETLE_ESP32\<close> branch (lines 199 to
  211). Its last branch only prints a note.
\<close>

definition firebeetle_variant :: "macros \<Rightarrow> macros" where
  "firebeetle_variant env =
     (if pp_defined env ''FIREBEETLE_ESP32_COVER_LORA'' then
        pp_define ''USE_SX1276'' Empty env
      else if pp_defined env ''LORAWAN_NODE'' then
        pp_define ''USE_SX1276'' Empty env
      else env)"

definition board :: "macros \<Rightarrow> macros" where
  "board env =
     (if pp_defined env ''ARDUINO_TTGO_LoRa32_V1'' then
        pp_define ''USE_SX1276'' Empty env
      else if pp_defined env ''ARDUINO_TTGO_LoRa32_V2'' then
        pp_define ''USE_SX1276'' Empty env
      else if pp_defined env ''ARDUINO_TTGO_LoRa32_v21new'' then
        pp_define ''USE_SX1276'' Empty env
      else if pp_defined env ''ARDUINO_LILYGO_T3S3_SX1262'' then
        pp_defines
          [(''USE_SX1262'', Empty),
           (''PIN_RECEIVER_CS'', Ident ''LORA_CS''),
           (''PIN_RECEIVER_IRQ'', Ident ''LORA_IRQ''),
           (''PIN_RECEIVER_GPIO'', Ident ''LORA_BUSY''),
           (''PIN_RECEIVER_RST'', Ident ''LORA_RST'')] env
      else if pp_defined env ''ARDUINO_LILYGO_T3S3_SX1276'' then
        pp_defines
          [(''USE_SX1276'', Empty),
           (''PIN_RECEIVER_CS'', Ident ''LORA_CS''),
           (''PIN_RECEIVER_IRQ'', Ident ''LORA_IRQ''),
           (''PIN_RECEIVER_GPIO'', Ident ''LORA_BUSY''),
           (''PIN_RECEIVER_RST'', Ident ''LORA_RST'')] env
      else if pp_defined env ''ARDUINO_LILYGO_T3S3_LR1121'' then
        pp_defines
          [(''USE_LR1121'', Empty),
           (''PIN_RECEIVER_CS'', Ident ''LORA_CS''),
           (''PIN_RECEIVER_IRQ'', Ident ''LORA_IRQ''),
           (''PIN_RECEIVER_GPIO'', Ident ''LORA_BUSY''),
           (''PIN_RECEIVER_RST'', Ident ''LORA_RST'')] env
      else if pp_defined env ''ARDUINO_HELTEC_WIRELESS_STICK'' then
        pp_define ''USE_SX1276'' Empty env
      else if pp_defined env ''ARDUINO_HELTEC_WIFI_LORA_32_V2'' then
        pp_define ''USE_SX1276'' Empty env
      else if pp_defined env ''ARDUINO_ADAFRUIT_FEATHER_ESP32S2'' then
        pp_define ''USE_SX1276'' Empty env
      else if pp_defined env ''ARDUINO_FEATHER_ESP32'' then
        pp_define ''USE_SX1276'' Empty env
      else if pp_defined env ''ARDUINO_AVR_FEATHER32U4'' then
        pp_define ''USE_SX1276'' Empty env
      else if pp_defined env ''ARDUINO_ADAFRUIT_FEATHER_RP2040'' then
        pp_define ''USE_SX1276'' Empty env
      else if pp_defined env ''ARDUINO_DFROBOT_FIREBEETLE_ESP32'' then
        firebeetle_variant (pp_define ''FIREBEETLE_ESP32_COVER_LORA'' Empty env)
      else env)"

section \<open>The radio transceiver chain (lines 219 to 229)\<close>

definition radio_transceiver :: "macros \<Rightarrow> string + macros" where
  "radio_transceiver env =
     (if pp_defined env ''USE_CC1101'' then
        Inr (pp_define ''TRANSCEIVER_CHIP'' (Str ''[CC1101]'') env)
      else if pp_defined env ''USE_SX1276'' then
        Inr (pp_define ''TRANSCEIVER_CHIP'' (Str ''[SX1276]'') env)
      else if pp_defined env ''USE_SX1262'' then
        Inr (pp_define ''TRANSCEIVER_CHIP'' (Str ''[SX1262]'') env)
      else if pp_defined env ''USE_LR1121'' then
        Inr (pp_define ''TRANSCEIVER_CHIP'' (Str ''[LR1121]'') env)
      else
        Inl ''Either USE_CC1101, USE_SX1276, USE_SX1262 or USE_LR1121 must be defined!'')"

section \<open>The transceiver pin chain (lines 236 to 380)\<close>

text \<open>Every branch of the chain defines the same four macros, in this order.\<close>

definition transceiver_pins_are ::
  "macro_body \<Rightarrow> macro_body \<Rightarrow> macro_body \<Rightarrow> macro_body \<Rightarrow> macros \<Rightarrow> macros" where
  "transceiver_pins_are cs irq gpio rst env =
     pp_defines
       [(''PIN_TRANSCEIVER_CS'', cs),
        (''PIN_TRANSCEIVER_IRQ'', irq),
        (''PIN_TRANSCEIVER_GPIO'', gpio),
        (''PIN_TRANSCEIVER_RST'', rst)] env"

definition transceiver_pins :: "macros \<Rightarrow> macros" where
  "transceiver_pins env =
     (if pp_defined env ''LORAWAN_NODE'' then
        transceiver_pins_are (Num 14) (Num 4) (Num 16) (Num 12) env
      else if pp_defined env ''FIREBEETLE_ESP32_COVER_LORA'' then
        transceiver_pins_are (Num 27) (Num 26) (Num 9) (Num 25) env
      else if pp_defined env ''ARDUINO_TTGO_LoRa32_V1''
            \<or> pp_defined env ''ARDUINO_TTGO_LoRa32_V2'' then
        transceiver_pins_are (Ident ''LORA_CS'') (Ident ''LORA_IRQ'') (Num 33)
          (Ident ''LORA_RST'') env
      else if pp_defined env ''ARDUINO_TTGO_LoRa32_v21new'' then
        transceiver_pins_are (Ident ''LORA_CS'') (Ident ''LORA_IRQ'') (Ident ''LORA_D1'')
          (Ident ''LORA_RST'') env
      else if pp_defined env ''ARDUINO_heltec_wireless_stick''
            \<or> pp_defined env ''ARDUINO_heltec_wifi_lora_32_V2'' then
        transceiver_pins_are (Ident ''SS'') (Ident ''DIO0'') (Ident ''DIO1'')
          (Ident ''RST_LoRa'') env
      else if pp_defined env ''ARDUINO_ADAFRUIT_FEATHER_ESP32S2'' then
        transceiver_pins_are (Num 6) (Num 5) (Num 11) (Num 9) env
      else if pp_defined env ''ARDUINO_FEATHER_ESP32'' then
        transceiver_pins_are (Num 14) (Num 32) (Num 33) (Num 27) env
      else if pp_defined env ''ESP32'' then
        transceiver_pins_are (Num 27) (Num 21) (Num 33) (Num 32) env
      else if pp_defined env ''ESP8266'' then
        transceiver_pins_are (Num 15) (Num 4) (Num 5) (Num 2) env
      else if pp_defined env ''ARDUINO_AVR_FEATHER32U4'' then
        transceiver_pins_are (Num 8) (Num 7) (Num 99) (Num 4) env
      else if pp_defined env ''ARDUINO_ADAFRUIT_FEATHER_RP2040'' then
        transceiver_pins_are (Num 7) (Num 8) (Num 10) (Num 11) env
      else env)"

section \<open>The header\<close>

text \<open>
  Lines 54 to 63: the definitions made before the board chain. The payload source is
  chosen by editing the header; as it stands, \<^verbatim>\<open>DATA_JSON_INPUT\<close> is the one line of the
  four that is not commented out.
\<close>

definition settings :: "macros \<Rightarrow> macros" where
  "settings env =
     pp_defines
       [(''MAX_SENSORS_DEFAULT'', Num 1),
        (''WIND_DATA_FLOATINGPOINT'', Empty),
        (''DATA_JSON_INPUT'', Empty),
        (''TX_INTERVAL'', Num 30)] env"

text \<open>Lines 382 and 383.\<close>

definition stringify_helpers :: "macros \<Rightarrow> macros" where
  "stringify_helpers env =
     pp_defines
       [(''STR_HELPER'', FunLike [''x''] ''#x''),
        (''STR'', FunLike [''x''] ''STR_HELPER(x)'')] env"

text \<open>
  The part of the header inside its include guard. The \<^verbatim>\<open>#pragma message\<close> directives
  print notes during compilation and neither define a macro nor stop the build; they
  have no counterpart here. At an \<^verbatim>\<open>#error\<close> the build has failed, and the result is the
  message.
\<close>

definition header_body :: "macros \<Rightarrow> string + macros" where
  "header_body env =
     (case radio_transceiver (board (settings env)) of
        Inl msg \<Rightarrow> Inl msg
      | Inr env' \<Rightarrow> Inr (stringify_helpers (transceiver_pins env')))"

text \<open>The whole header, with its include guard (lines 49, 50 and 387).\<close>

definition SensorTransmitter_h :: "macros \<Rightarrow> string + macros" where
  "SensorTransmitter_h env =
     (if \<not> pp_defined env ''SENSOR_TRANSMITTER_H'' then
        header_body (pp_define ''SENSOR_TRANSMITTER_H'' Empty env)
      else Inr env)"

text \<open>The four transceiver pins of a macro table, as chip-select, IRQ, GPIO and reset.\<close>

definition pin_set :: "macros \<Rightarrow> macro_body option list" where
  "pin_set env =
     map env [''PIN_TRANSCEIVER_CS'', ''PIN_TRANSCEIVER_IRQ'', ''PIN_TRANSCEIVER_GPIO'',
       ''PIN_TRANSCEIVER_RST'']"

text \<open>The radio family macros that are defined in a macro table.\<close>

definition radio_families :: "macros \<Rightarrow> string list" where
  "radio_families env =
     filter (pp_defined env) [''USE_CC1101'', ''USE_SX1276'', ''USE_SX1262'', ''USE_LR1121'']"

text \<open>The payload source macros that are defined in a macro table.\<close>

definition payload_sources :: "macros \<Rightarrow> string list" where
  "payload_sources env =
     filter (pp_defined env) [''DATA_RAW'', ''DATA_GEN'', ''DATA_JSON_CONST'', ''DATA_JSON_INPUT'']"

text \<open>A build configuration given as the list of macro names set on the command line.\<close>

definition predefined :: "string list \<Rightarrow> macros" where
  "predefined ms = map_of (map (\<lambda>m. (m, Num 1)) ms)"

section \<open>Names used in the statements\<close>

text \<open>
  The macros the board chain tests, in the order of its branches. A build for one of these
  boards defines the macro of that board; the chain takes the branch of the first one
  that is defined, which \<open>find (pp_defined env) board_targets\<close> computes. The two
  Heltec boards are tested here under the spellings \<^verbatim>\<open>ARDUINO_HELTEC_WIRELESS_STICK\<close> and
  \<^verbatim>\<open>ARDUINO_HELTEC_WIFI_LORA_32_V2\<close>.
\<close>

definition board_targets :: "string list" where
  "board_targets =
     [''ARDUINO_TTGO_LoRa32_V1'', ''ARDUINO_TTGO_LoRa32_V2'', ''ARDUINO_TTGO_LoRa32_v21new'',
      ''ARDUINO_LILYGO_T3S3_SX1262'', ''ARDUINO_LILYGO_T3S3_SX1276'',
      ''ARDUINO_LILYGO_T3S3_LR1121'', ''ARDUINO_HELTEC_WIRELESS_STICK'',
      ''ARDUINO_HELTEC_WIFI_LORA_32_V2'', ''ARDUINO_ADAFRUIT_FEATHER_ESP32S2'',
      ''ARDUINO_FEATHER_ESP32'', ''ARDUINO_AVR_FEATHER32U4'',
      ''ARDUINO_ADAFRUIT_FEATHER_RP2040'', ''ARDUINO_DFROBOT_FIREBEETLE_ESP32'']"

text \<open>
  The radio family whose \<^verbatim>\<open>USE_\<close> macro the branch of a board target defines (lines 131
  to 206).
\<close>

definition board_family :: "string \<Rightarrow> string" where
  "board_family b =
     (if b = ''ARDUINO_LILYGO_T3S3_SX1262'' then ''SX1262''
      else if b = ''ARDUINO_LILYGO_T3S3_LR1121'' then ''LR1121''
      else ''SX1276'')"

text \<open>
  The macros tested by the branches of the pin chain that come before its generic
  \<^verbatim>\<open>ESP32\<close> branch (lines 236 to 315). The Heltec boards appear here under the spellings
  \<^verbatim>\<open>ARDUINO_heltec_wireless_stick\<close> and \<^verbatim>\<open>ARDUINO_heltec_wifi_lora_32_V2\<close>.
\<close>

definition pins_before_ESP32 :: "string list" where
  "pins_before_ESP32 =
     [''LORAWAN_NODE'', ''FIREBEETLE_ESP32_COVER_LORA'', ''ARDUINO_TTGO_LoRa32_V1'',
      ''ARDUINO_TTGO_LoRa32_V2'', ''ARDUINO_TTGO_LoRa32_v21new'',
      ''ARDUINO_heltec_wireless_stick'', ''ARDUINO_heltec_wifi_lora_32_V2'',
      ''ARDUINO_ADAFRUIT_FEATHER_ESP32S2'', ''ARDUINO_FEATHER_ESP32'']"


text \<open>The macro table at line 129, where the board chain begins, on a first inclusion.\<close>

definition start :: "macros \<Rightarrow> macros" where
  "start env = settings (pp_define ''SENSOR_TRANSMITTER_H'' Empty env)"

section \<open>Facts about the directives\<close>

lemma pp_defines_Nil: "pp_defines [] env = env"
  by (simp add: pp_defines_def)

lemma pp_defines_Cons: "pp_defines ((m, b) # ds) env = pp_defines ds (pp_define m b env)"
  by (simp add: pp_defines_def)

lemma pp_define_apply: "pp_define m b env x = (if x = m then Some b else env x)"
  by (simp add: pp_define_def)

lemma pp_defined_define: "pp_defined (pp_define m b env) x = (x = m \<or> pp_defined env x)"
  by (simp add: pp_defined_def pp_define_def)

lemmas pp_simps = pp_defines_Nil pp_defines_Cons pp_define_apply pp_defined_define

text \<open>Unfolding everything evaluates the header on a given macro table.\<close>

lemmas header_eval =
  SensorTransmitter_h_def header_body_def settings_def board_def firebeetle_variant_def
  radio_transceiver_def transceiver_pins_def transceiver_pins_are_def stringify_helpers_def
  pin_set_def radio_families_def payload_sources_def predefined_def board_targets_def
  pp_defines_Nil pp_defines_Cons pp_defined_def pp_define_apply

subsection \<open>The first branch of a chain whose condition holds\<close>

lemma find_NoneD: "find P xs = None \<Longrightarrow> \<forall>x\<in>set xs. \<not> P x"
  by (simp add: find_None_iff)

lemma find_SomeD:
  "find P xs = Some b \<Longrightarrow>
     P b \<and> b \<in> set xs \<and> (\<forall>x\<in>set (takeWhile (\<lambda>x. x \<noteq> b) xs). \<not> P x)"
  by (induction xs) (auto split: if_splits)

lemma find_not_defined: "\<not> P b \<Longrightarrow> find P xs \<noteq> Some b"
  by (induction xs) auto

lemma board_targets_cases:
  assumes "b \<in> set board_targets"
  obtains
      "b = ''ARDUINO_TTGO_LoRa32_V1''" | "b = ''ARDUINO_TTGO_LoRa32_V2''"
    | "b = ''ARDUINO_TTGO_LoRa32_v21new''" | "b = ''ARDUINO_LILYGO_T3S3_SX1262''"
    | "b = ''ARDUINO_LILYGO_T3S3_SX1276''" | "b = ''ARDUINO_LILYGO_T3S3_LR1121''"
    | "b = ''ARDUINO_HELTEC_WIRELESS_STICK''" | "b = ''ARDUINO_HELTEC_WIFI_LORA_32_V2''"
    | "b = ''ARDUINO_ADAFRUIT_FEATHER_ESP32S2''" | "b = ''ARDUINO_FEATHER_ESP32''"
    | "b = ''ARDUINO_AVR_FEATHER32U4''" | "b = ''ARDUINO_ADAFRUIT_FEATHER_RP2040''"
    | "b = ''ARDUINO_DFROBOT_FIREBEETLE_ESP32''"
proof -
  from assms have "b = ''ARDUINO_TTGO_LoRa32_V1'' \<or> b = ''ARDUINO_TTGO_LoRa32_V2''
    \<or> b = ''ARDUINO_TTGO_LoRa32_v21new'' \<or> b = ''ARDUINO_LILYGO_T3S3_SX1262''
    \<or> b = ''ARDUINO_LILYGO_T3S3_SX1276'' \<or> b = ''ARDUINO_LILYGO_T3S3_LR1121''
    \<or> b = ''ARDUINO_HELTEC_WIRELESS_STICK'' \<or> b = ''ARDUINO_HELTEC_WIFI_LORA_32_V2''
    \<or> b = ''ARDUINO_ADAFRUIT_FEATHER_ESP32S2'' \<or> b = ''ARDUINO_FEATHER_ESP32''
    \<or> b = ''ARDUINO_AVR_FEATHER32U4'' \<or> b = ''ARDUINO_ADAFRUIT_FEATHER_RP2040''
    \<or> b = ''ARDUINO_DFROBOT_FIREBEETLE_ESP32''"
    unfolding board_targets_def by simp
  then show thesis
    by (elim disjE) (erule that)+
qed

lemma board_family_cases:
  "board_family b = ''SX1276'' \<or> board_family b = ''SX1262'' \<or> board_family b = ''LR1121''"
  by (simp add: board_family_def)

subsection \<open>Lines 50 to 63\<close>

lemma start_apply:
  "start env x =
     (if x = ''TX_INTERVAL'' then Some (Num 30)
      else if x = ''DATA_JSON_INPUT'' then Some Empty
      else if x = ''WIND_DATA_FLOATINGPOINT'' then Some Empty
      else if x = ''MAX_SENSORS_DEFAULT'' then Some (Num 1)
      else if x = ''SENSOR_TRANSMITTER_H'' then Some Empty
      else env x)"
  by (simp add: start_def settings_def pp_simps)

lemma start_find:
  "find (pp_defined (start env)) board_targets = find (pp_defined env) board_targets"
  by (rule find_cong) (auto simp add: board_targets_def pp_defined_def start_apply)

lemma start_families: "radio_families (start env) = radio_families env"
  by (simp add: radio_families_def pp_defined_def start_apply)

lemma header_unfold:
  "\<not> pp_defined env ''SENSOR_TRANSMITTER_H'' \<Longrightarrow>
   SensorTransmitter_h env =
     (case radio_transceiver (board (start env)) of
        Inl msg \<Rightarrow> Inl msg
      | Inr e \<Rightarrow> Inr (stringify_helpers (transceiver_pins e)))"
  by (simp add: SensorTransmitter_h_def header_body_def start_def)

subsection \<open>The board chain\<close>

lemma board_none:
  "find (pp_defined env) board_targets = None \<Longrightarrow> board env = env"
  by (drule find_NoneD) (simp add: board_targets_def board_def)

lemma board_branch:
  assumes "find (pp_defined env) board_targets = Some b"
  shows "board env =
     (if b = ''ARDUINO_DFROBOT_FIREBEETLE_ESP32'' then
        pp_define ''USE_SX1276'' Empty (pp_define ''FIREBEETLE_ESP32_COVER_LORA'' Empty env)
      else if b \<in> {''ARDUINO_LILYGO_T3S3_SX1262'', ''ARDUINO_LILYGO_T3S3_SX1276'',
                  ''ARDUINO_LILYGO_T3S3_LR1121''} then
        pp_defines
          [(''USE_'' @ board_family b, Empty),
           (''PIN_RECEIVER_CS'', Ident ''LORA_CS''),
           (''PIN_RECEIVER_IRQ'', Ident ''LORA_IRQ''),
           (''PIN_RECEIVER_GPIO'', Ident ''LORA_BUSY''),
           (''PIN_RECEIVER_RST'', Ident ''LORA_RST'')] env
      else pp_define ''USE_SX1276'' Empty env)"
proof -
  from find_SomeD [OF assms]
  have b: "b \<in> set board_targets" and d: "pp_defined env b"
    and n: "\<forall>x\<in>set (takeWhile (\<lambda>x. x \<noteq> b) board_targets). \<not> pp_defined env x"
    by simp_all
  from b show ?thesis
    using d n
    by (cases rule: board_targets_cases)
      (simp_all add: board_targets_def board_def firebeetle_variant_def pp_defined_define
        board_family_def)
qed

lemma board_USE:
  assumes "find (pp_defined env) board_targets = Some b"
  shows "pp_defined (board env) ''USE_CC1101'' = pp_defined env ''USE_CC1101''"
    and "pp_defined (board env) ''USE_SX1276'' =
           (pp_defined env ''USE_SX1276'' \<or> board_family b = ''SX1276'')"
    and "pp_defined (board env) ''USE_SX1262'' =
           (pp_defined env ''USE_SX1262'' \<or> board_family b = ''SX1262'')"
    and "pp_defined (board env) ''USE_LR1121'' =
           (pp_defined env ''USE_LR1121'' \<or> board_family b = ''LR1121'')"
    and "pp_defined (board env) ''FIREBEETLE_ESP32_COVER_LORA'' =
           (pp_defined env ''FIREBEETLE_ESP32_COVER_LORA''
            \<or> b = ''ARDUINO_DFROBOT_FIREBEETLE_ESP32'')"
  using board_family_cases [of b]
  by (auto simp add: board_branch [OF assms] pp_simps board_family_def)

lemma families_board_Some:
  assumes "find (pp_defined e) board_targets = Some b"
  shows "radio_families (board e) =
     filter (\<lambda>u. pp_defined e u \<or> u = ''USE_'' @ board_family b)
       [''USE_CC1101'', ''USE_SX1276'', ''USE_SX1262'', ''USE_LR1121'']"
  using board_family_cases [of b]
  by (auto simp add: radio_families_def board_USE [OF assms])

lemma families_board_nonempty:
  "radio_families (board (start env)) = [] \<longleftrightarrow>
     radio_families env = [] \<and> find (pp_defined env) board_targets = None"
proof (cases "find (pp_defined env) board_targets")
  case None
  then show ?thesis
    by (simp add: board_none start_find start_families)
next
  case (Some b)
  then have "find (pp_defined (start env)) board_targets = Some b"
    by (simp add: start_find)
  from families_board_Some [OF this] board_family_cases [of b] Some show ?thesis
    by auto
qed

lemma families_after_board:
  assumes "find (pp_defined (start env)) board_targets = Some b"
  shows "radio_families (board (start env)) =
     filter (\<lambda>u. pp_defined env u \<or> u = ''USE_'' @ board_family b)
       [''USE_CC1101'', ''USE_SX1276'', ''USE_SX1262'', ''USE_LR1121'']"
  by (simp add: families_board_Some [OF assms] pp_defined_def start_apply)

lemma family_defined_after_board:
  assumes "find (pp_defined (start env)) board_targets = Some b"
  shows "pp_defined (board (start env)) (''USE_'' @ board_family b)"
  using board_family_cases [of b] by (auto simp add: board_USE [OF assms])

text \<open>
  The family macros are tested in the order CC1101, SX1276, SX1262, LR1121; the first one
  defined gives the chip label.
\<close>

lemma chosen_family:
  "filter Q [''USE_CC1101'', ''USE_SX1276'', ''USE_SX1262'', ''USE_LR1121''] \<noteq> [] \<Longrightarrow>
   drop 4 (hd (filter Q [''USE_CC1101'', ''USE_SX1276'', ''USE_SX1262'', ''USE_LR1121'']))
     = hd (filter (\<lambda>x. Q (''USE_'' @ x)) [''CC1101'', ''SX1276'', ''SX1262'', ''LR1121''])"
  by (simp split: if_splits)

lemma chip_after_board:
  assumes "find (pp_defined (start env)) board_targets = Some b"
  shows "drop 4 (hd (radio_families (board (start env)))) =
     hd (filter (\<lambda>x. pp_defined env (''USE_'' @ x) \<or> x = board_family b)
           [''CC1101'', ''SX1276'', ''SX1262'', ''LR1121''])"
proof -
  have ne: "filter (\<lambda>u. pp_defined env u \<or> u = ''USE_'' @ board_family b)
       [''USE_CC1101'', ''USE_SX1276'', ''USE_SX1262'', ''USE_LR1121''] \<noteq> []"
    using board_family_cases [of b] unfolding filter_empty_conv by (elim disjE) simp_all
  show ?thesis
    unfolding families_after_board [OF assms] chosen_family [OF ne]
    by simp
qed

lemma board_family_first:
  assumes "\<forall>x\<in>set (takeWhile (\<lambda>x. x \<noteq> board_family b) [''CC1101'', ''SX1276'', ''SX1262'', ''LR1121'']).
             \<not> pp_defined env (''USE_'' @ x)"
  shows "hd (filter (\<lambda>x. pp_defined env (''USE_'' @ x) \<or> x = board_family b)
           [''CC1101'', ''SX1276'', ''SX1262'', ''LR1121'']) = board_family b"
  using board_family_cases [of b] assms by (elim disjE) simp_all


lemma board_start_other:
  "x \<notin> {''USE_SX1276'', ''USE_SX1262'', ''USE_LR1121'', ''PIN_RECEIVER_CS'',
        ''PIN_RECEIVER_IRQ'', ''PIN_RECEIVER_GPIO'', ''PIN_RECEIVER_RST'',
        ''FIREBEETLE_ESP32_COVER_LORA'', ''TX_INTERVAL'', ''DATA_JSON_INPUT'',
        ''WIND_DATA_FLOATINGPOINT'', ''MAX_SENSORS_DEFAULT'', ''SENSOR_TRANSMITTER_H''}
   \<Longrightarrow> board (start env) x = env x"
  by (simp add: board_def firebeetle_variant_def pp_simps start_apply)

lemma board_start_fixed:
  "board (start env) ''TX_INTERVAL'' = Some (Num 30)"
  "board (start env) ''DATA_JSON_INPUT'' = Some Empty"
  by (simp_all add: board_def firebeetle_variant_def pp_simps start_apply)

lemma cover_lora_after_board:
  "pp_defined (board (start env)) ''FIREBEETLE_ESP32_COVER_LORA'' =
     (pp_defined env ''FIREBEETLE_ESP32_COVER_LORA''
      \<or> find (pp_defined env) board_targets = Some ''ARDUINO_DFROBOT_FIREBEETLE_ESP32'')"
proof (cases "find (pp_defined env) board_targets")
  case None
  then have "board (start env) = start env"
    by (simp add: board_none start_find)
  with None show ?thesis
    by (simp add: pp_defined_def start_apply)
next
  case (Some b)
  then have "find (pp_defined (start env)) board_targets = Some b"
    by (simp add: start_find)
  from board_USE(5) [OF this] Some show ?thesis
    by (simp add: pp_defined_def start_apply)
qed

subsection \<open>The radio transceiver chain\<close>

text \<open>
  \<open>radio_families\<close> lists the family macros in the order in which the chain tests them,
  so the head of the list is the family the chain settles on; dropping the four
  characters of \<^verbatim>\<open>USE_\<close> from its name and adding the brackets gives the chip label.
\<close>

lemma radio_transceiver_fail:
  "radio_families e = [] \<Longrightarrow>
   radio_transceiver e =
     Inl ''Either USE_CC1101, USE_SX1276, USE_SX1262 or USE_LR1121 must be defined!''"
  unfolding radio_families_def filter_empty_conv by (simp add: radio_transceiver_def)

lemma radio_transceiver_ok:
  "radio_families e \<noteq> [] \<Longrightarrow>
   radio_transceiver e =
     Inr (pp_define ''TRANSCEIVER_CHIP''
            (Str (''['' @ drop 4 (hd (radio_families e)) @ '']'')) e)"
  by (simp add: radio_families_def radio_transceiver_def split: if_splits)


subsection \<open>The result of a first inclusion\<close>

lemma header_ok:
  assumes "\<not> pp_defined env ''SENSOR_TRANSMITTER_H''"
    and "radio_families (board (start env)) \<noteq> []"
  shows "SensorTransmitter_h env =
     Inr (stringify_helpers (transceiver_pins
       (pp_define ''TRANSCEIVER_CHIP''
          (Str (''['' @ drop 4 (hd (radio_families (board (start env)))) @ '']''))
          (board (start env)))))"
  by (simp add: header_unfold [OF assms(1)] radio_transceiver_ok [OF assms(2)])

lemma header_fail:
  assumes "\<not> pp_defined env ''SENSOR_TRANSMITTER_H''"
    and "radio_families (board (start env)) = []"
  shows "SensorTransmitter_h env =
     Inl ''Either USE_CC1101, USE_SX1276, USE_SX1262 or USE_LR1121 must be defined!''"
  by (simp add: header_unfold [OF assms(1)] radio_transceiver_fail [OF assms(2)])

lemma header_isl:
  assumes "\<not> pp_defined env ''SENSOR_TRANSMITTER_H''"
  shows "isl (SensorTransmitter_h env) \<longleftrightarrow>
     radio_families env = [] \<and> find (pp_defined env) board_targets = None"
proof (cases "radio_families (board (start env)) = []")
  case True
  with header_fail [OF assms True] show ?thesis
    by (simp add: families_board_nonempty)
next
  case False
  with header_ok [OF assms False] show ?thesis
    by (simp add: families_board_nonempty)
qed

lemma header_Inr:
  assumes "\<not> pp_defined env ''SENSOR_TRANSMITTER_H''"
    and "SensorTransmitter_h env = Inr env'"
  shows "env' = stringify_helpers (transceiver_pins
       (pp_define ''TRANSCEIVER_CHIP''
          (Str (''['' @ drop 4 (hd (radio_families (board (start env)))) @ '']''))
          (board (start env))))"
proof (cases "radio_families (board (start env)) = []")
  case True
  from header_fail [OF assms(1) this] assms(2) show ?thesis by simp
next
  case False
  from header_ok [OF assms(1) this] assms(2) show ?thesis by simp
qed

lemma result_chip:
  "stringify_helpers (transceiver_pins (pp_define ''TRANSCEIVER_CHIP'' c e)) ''TRANSCEIVER_CHIP''
     = Some c"
  by (simp add: stringify_helpers_def transceiver_pins_def transceiver_pins_are_def pp_simps)

lemma result_other:
  "x \<notin> {''STR_HELPER'', ''STR'', ''PIN_TRANSCEIVER_CS'', ''PIN_TRANSCEIVER_IRQ'',
        ''PIN_TRANSCEIVER_GPIO'', ''PIN_TRANSCEIVER_RST'', ''TRANSCEIVER_CHIP''} \<Longrightarrow>
   stringify_helpers (transceiver_pins (pp_define ''TRANSCEIVER_CHIP'' c e)) x = e x"
  by (simp add: stringify_helpers_def transceiver_pins_def transceiver_pins_are_def pp_simps)

lemma result_defined:
  "x \<notin> {''STR_HELPER'', ''STR'', ''PIN_TRANSCEIVER_CS'', ''PIN_TRANSCEIVER_IRQ'',
        ''PIN_TRANSCEIVER_GPIO'', ''PIN_TRANSCEIVER_RST'', ''TRANSCEIVER_CHIP''} \<Longrightarrow>
   pp_defined (stringify_helpers (transceiver_pins (pp_define ''TRANSCEIVER_CHIP'' c e))) x
     = pp_defined e x"
  by (simp add: pp_defined_def result_other del: not_None_eq)

lemma result_families:
  "radio_families (stringify_helpers (transceiver_pins (pp_define ''TRANSCEIVER_CHIP'' c e)))
     = radio_families e"
  by (simp add: radio_families_def pp_defined_def result_other)

lemma USE_family_kept:
  "''USE_'' @ board_family b \<notin> {''STR_HELPER'', ''STR'', ''PIN_TRANSCEIVER_CS'',
      ''PIN_TRANSCEIVER_IRQ'', ''PIN_TRANSCEIVER_GPIO'', ''PIN_TRANSCEIVER_RST'',
      ''TRANSCEIVER_CHIP''}"
  by simp

subsection \<open>The transceiver pin chain\<close>

lemma pin_set_stringify_helpers: "pin_set (stringify_helpers e) = pin_set e"
  by (simp add: pin_set_def stringify_helpers_def pp_simps)

lemma pin_set_transceiver_pins_are:
  "pin_set (transceiver_pins_are cs irq gpio rst e) = [Some cs, Some irq, Some gpio, Some rst]"
  by (simp add: pin_set_def transceiver_pins_are_def pp_simps)

lemma pin_set_chip: "pin_set (pp_define ''TRANSCEIVER_CHIP'' c e) = pin_set e"
  by (simp add: pin_set_def pp_simps)

lemma pin_set_after_board: "pin_set (board (start env)) = pin_set env"
  by (simp add: pin_set_def board_start_other)

lemma pin_conditions_after_board:
  "pp_defined (board (start env)) ''LORAWAN_NODE'' = pp_defined env ''LORAWAN_NODE''"
  "pp_defined (board (start env)) ''ARDUINO_TTGO_LoRa32_V1''
     = pp_defined env ''ARDUINO_TTGO_LoRa32_V1''"
  "pp_defined (board (start env)) ''ARDUINO_TTGO_LoRa32_V2''
     = pp_defined env ''ARDUINO_TTGO_LoRa32_V2''"
  "pp_defined (board (start env)) ''ARDUINO_TTGO_LoRa32_v21new''
     = pp_defined env ''ARDUINO_TTGO_LoRa32_v21new''"
  "pp_defined (board (start env)) ''ARDUINO_heltec_wireless_stick''
     = pp_defined env ''ARDUINO_heltec_wireless_stick''"
  "pp_defined (board (start env)) ''ARDUINO_heltec_wifi_lora_32_V2''
     = pp_defined env ''ARDUINO_heltec_wifi_lora_32_V2''"
  "pp_defined (board (start env)) ''ARDUINO_ADAFRUIT_FEATHER_ESP32S2''
     = pp_defined env ''ARDUINO_ADAFRUIT_FEATHER_ESP32S2''"
  "pp_defined (board (start env)) ''ARDUINO_FEATHER_ESP32''
     = pp_defined env ''ARDUINO_FEATHER_ESP32''"
  "pp_defined (board (start env)) ''ESP32'' = pp_defined env ''ESP32''"
  "pp_defined (board (start env)) ''ESP8266'' = pp_defined env ''ESP8266''"
  "pp_defined (board (start env)) ''ARDUINO_AVR_FEATHER32U4''
     = pp_defined env ''ARDUINO_AVR_FEATHER32U4''"
  "pp_defined (board (start env)) ''ARDUINO_ADAFRUIT_FEATHER_RP2040''
     = pp_defined env ''ARDUINO_ADAFRUIT_FEATHER_RP2040''"
  by (simp_all add: pp_defined_def board_start_other)

text \<open>The four pins after a first inclusion that did not stop, read off the macro table
  the build started from.\<close>

lemma result_pins:
  "pin_set (stringify_helpers (transceiver_pins
       (pp_define ''TRANSCEIVER_CHIP'' c (board (start env))))) =
     (if pp_defined env ''LORAWAN_NODE'' then
        [Some (Num 14), Some (Num 4), Some (Num 16), Some (Num 12)]
      else if pp_defined env ''FIREBEETLE_ESP32_COVER_LORA''
            \<or> find (pp_defined env) board_targets = Some ''ARDUINO_DFROBOT_FIREBEETLE_ESP32'' then
        [Some (Num 27), Some (Num 26), Some (Num 9), Some (Num 25)]
      else if pp_defined env ''ARDUINO_TTGO_LoRa32_V1''
            \<or> pp_defined env ''ARDUINO_TTGO_LoRa32_V2'' then
        [Some (Ident ''LORA_CS''), Some (Ident ''LORA_IRQ''), Some (Num 33),
         Some (Ident ''LORA_RST'')]
      else if pp_defined env ''ARDUINO_TTGO_LoRa32_v21new'' then
        [Some (Ident ''LORA_CS''), Some (Ident ''LORA_IRQ''), Some (Ident ''LORA_D1''),
         Some (Ident ''LORA_RST'')]
      else if pp_defined env ''ARDUINO_heltec_wireless_stick''
            \<or> pp_defined env ''ARDUINO_heltec_wifi_lora_32_V2'' then
        [Some (Ident ''SS''), Some (Ident ''DIO0''), Some (Ident ''DIO1''),
         Some (Ident ''RST_LoRa'')]
      else if pp_defined env ''ARDUINO_ADAFRUIT_FEATHER_ESP32S2'' then
        [Some (Num 6), Some (Num 5), Some (Num 11), Some (Num 9)]
      else if pp_defined env ''ARDUINO_FEATHER_ESP32'' then
        [Some (Num 14), Some (Num 32), Some (Num 33), Some (Num 27)]
      else if pp_defined env ''ESP32'' then
        [Some (Num 27), Some (Num 21), Some (Num 33), Some (Num 32)]
      else if pp_defined env ''ESP8266'' then
        [Some (Num 15), Some (Num 4), Some (Num 5), Some (Num 2)]
      else if pp_defined env ''ARDUINO_AVR_FEATHER32U4'' then
        [Some (Num 8), Some (Num 7), Some (Num 99), Some (Num 4)]
      else if pp_defined env ''ARDUINO_ADAFRUIT_FEATHER_RP2040'' then
        [Some (Num 7), Some (Num 8), Some (Num 10), Some (Num 11)]
      else pin_set env)"
  by (simp add: pin_set_stringify_helpers transceiver_pins_def pp_defined_define
      pin_conditions_after_board cover_lora_after_board pin_set_transceiver_pins_are
      pin_set_chip pin_set_after_board)



subsection \<open>The payload source macros\<close>

lemma define_payload_families:
  "d \<in> set [''DATA_RAW'', ''DATA_GEN'', ''DATA_JSON_CONST'', ''DATA_JSON_INPUT''] \<Longrightarrow>
   radio_families (pp_define d body env) = radio_families env"
  by (auto simp add: radio_families_def pp_defined_define)

lemma define_payload_find:
  "d \<in> set [''DATA_RAW'', ''DATA_GEN'', ''DATA_JSON_CONST'', ''DATA_JSON_INPUT''] \<Longrightarrow>
   find (pp_defined (pp_define d body env)) board_targets = find (pp_defined env) board_targets"
  by (rule find_cong) (auto simp add: board_targets_def pp_defined_define)

lemma define_payload_guard:
  "d \<in> set [''DATA_RAW'', ''DATA_GEN'', ''DATA_JSON_CONST'', ''DATA_JSON_INPUT''] \<Longrightarrow>
   pp_defined (pp_define d body env) ''SENSOR_TRANSMITTER_H''
     = pp_defined env ''SENSOR_TRANSMITTER_H''"
  by (auto simp add: pp_defined_define)

section \<open>The transmit interval\<close>

text \<open>
  Claim C9. The transmit interval is 30 seconds: after a first inclusion of the header
  that did not stop at the \<^verbatim>\<open>#error\<close>, \<^verbatim>\<open>TX_INTERVAL\<close> is defined as 30, whatever the build
  had defined before (line 63 is not guarded by an \<^verbatim>\<open>#ifndef\<close>).
\<close>

theorem TX_INTERVAL_is_30:
  assumes "\<not> pp_defined env ''SENSOR_TRANSMITTER_H''"
    and "SensorTransmitter_h env = Inr env'"
  shows "env' ''TX_INTERVAL'' = Some (Num 30)"
  unfolding header_Inr [OF assms]
  by (simp add: result_other board_start_fixed)

theorem TX_INTERVAL_is_30_witness:
  "\<not> pp_defined (predefined [''ESP32'', ''USE_SX1276'']) ''SENSOR_TRANSMITTER_H''
   \<and> \<not> isl (SensorTransmitter_h (predefined [''ESP32'', ''USE_SX1276'']))
   \<and> projr (SensorTransmitter_h (predefined [''ESP32'', ''USE_SX1276''])) ''TX_INTERVAL''
       = Some (Num 30)"
proof -
  let ?env = "predefined [''ESP32'', ''USE_SX1276'']"
  have g: "\<not> pp_defined ?env ''SENSOR_TRANSMITTER_H''"
    by (simp add: predefined_def pp_defined_def)
  have ok: "\<not> isl (SensorTransmitter_h ?env)"
    by (simp add: header_isl [OF g]) (simp add: header_eval)
  then have r: "SensorTransmitter_h ?env = Inr (projr (SensorTransmitter_h ?env))"
    by simp
  from TX_INTERVAL_is_30 [OF g r] g ok show ?thesis
    by (intro conjI)
qed

section \<open>Board targets: radio family and pins\<close>




text \<open>
  Claim C7 says that a hardware target that implies a radio family selects exactly that
  family. A build for the LilyGo T3S3 with the LR1121 that also names the SX1276: the
  SX1276 is selected.
\<close>

theorem build_family_overrides_target:
  "find (pp_defined (predefined [''ARDUINO_LILYGO_T3S3_LR1121'', ''ESP32'', ''USE_SX1276'']))
     board_targets = Some ''ARDUINO_LILYGO_T3S3_LR1121''
   \<and> \<not> isl (SensorTransmitter_h
            (predefined [''ARDUINO_LILYGO_T3S3_LR1121'', ''ESP32'', ''USE_SX1276'']))
   \<and> projr (SensorTransmitter_h
            (predefined [''ARDUINO_LILYGO_T3S3_LR1121'', ''ESP32'', ''USE_SX1276'']))
       ''TRANSCEIVER_CHIP'' = Some (Str ''[SX1276]'')"
  by (simp add: header_eval)

text \<open>
  Claim C7, amended. The branch of a board target defines the macro of the radio family
  that the target implies: the SX1262 for \<^verbatim>\<open>ARDUINO_LILYGO_T3S3_SX1262\<close>, the LR1121 for
  \<^verbatim>\<open>ARDUINO_LILYGO_T3S3_LR1121\<close>, and the SX1276 for every other board of the board chain
  (the TTGO LoRa32 variants, \<^verbatim>\<open>ARDUINO_LILYGO_T3S3_SX1276\<close>, \<^verbatim>\<open>ARDUINO_HELTEC_WIRELESS_STICK\<close>,
  \<^verbatim>\<open>ARDUINO_HELTEC_WIFI_LORA_32_V2\<close>, the Adafruit Feather boards and the Firebeetle). The
  family selected is the first, in the order CC1101, SX1276, SX1262, LR1121, of the
  target's family and those the build names itself: it is the target's family unless the
  build names one that comes before it.
\<close>

theorem board_target_family:
  assumes "\<not> pp_defined env ''SENSOR_TRANSMITTER_H''"
    and "find (pp_defined env) board_targets = Some b"
  shows "\<exists>env'. SensorTransmitter_h env = Inr env' \<and>
     (let f = (if b = ''ARDUINO_LILYGO_T3S3_SX1262'' then ''SX1262''
               else if b = ''ARDUINO_LILYGO_T3S3_LR1121'' then ''LR1121'' else ''SX1276'')
      in pp_defined env' (''USE_'' @ f) \<and>
         env' ''TRANSCEIVER_CHIP'' =
           Some (Str (''['' @
             hd (filter (\<lambda>x. pp_defined env (''USE_'' @ x) \<or> x = f)
                   [''CC1101'', ''SX1276'', ''SX1262'', ''LR1121'']) @ '']'')) \<and>
         ((\<forall>x\<in>set (takeWhile (\<lambda>x. x \<noteq> f) [''CC1101'', ''SX1276'', ''SX1262'', ''LR1121'']).
             \<not> pp_defined env (''USE_'' @ x)) \<longrightarrow>
          env' ''TRANSCEIVER_CHIP'' = Some (Str (''['' @ f @ '']''))))"
proof -
  from assms(2) have f: "find (pp_defined (start env)) board_targets = Some b"
    by (simp add: start_find)
  have ne: "radio_families (board (start env)) \<noteq> []"
    using assms(2) by (simp add: families_board_nonempty)
  have i: "(if b = ''ARDUINO_LILYGO_T3S3_SX1262'' then ''SX1262''
               else if b = ''ARDUINO_LILYGO_T3S3_LR1121'' then ''LR1121'' else ''SX1276'')
      = board_family b"
    by (simp add: board_family_def)
  let ?r = "stringify_helpers (transceiver_pins
       (pp_define ''TRANSCEIVER_CHIP''
          (Str (''['' @ drop 4 (hd (radio_families (board (start env)))) @ '']''))
          (board (start env))))"
  let ?h = "hd (filter (\<lambda>x. pp_defined env (''USE_'' @ x) \<or> x = board_family b)
                   [''CC1101'', ''SX1276'', ''SX1262'', ''LR1121''])"
  have 1: "pp_defined ?r (''USE_'' @ board_family b)"
    using family_defined_after_board [OF f]
    unfolding pp_defined_def result_other [OF USE_family_kept] .
  have 2: "?r ''TRANSCEIVER_CHIP'' = Some (Str (''['' @ ?h @ '']''))"
    unfolding result_chip chip_after_board [OF f] ..
  have 3: "?r ''TRANSCEIVER_CHIP'' = Some (Str (''['' @ board_family b @ '']''))"
    if "\<forall>x\<in>set (takeWhile (\<lambda>x. x \<noteq> board_family b)
                    [''CC1101'', ''SX1276'', ''SX1262'', ''LR1121'']).
             \<not> pp_defined env (''USE_'' @ x)"
    unfolding 2 board_family_first [OF that] ..
  show ?thesis
    unfolding i Let_def header_ok [OF assms(1) ne]
    using 1 2 3 by (intro exI conjI impI) (rule refl, assumption+)
qed

theorem board_target_family_witness:
  "find (pp_defined (predefined [''ARDUINO_LILYGO_T3S3_SX1262'', ''ESP32'', ''USE_LR1121'']))
     board_targets = Some ''ARDUINO_LILYGO_T3S3_SX1262''
   \<and> (\<exists>env'.
        SensorTransmitter_h
          (predefined [''ARDUINO_LILYGO_T3S3_SX1262'', ''ESP32'', ''USE_LR1121'']) = Inr env' \<and>
        pp_defined env' ''USE_SX1262'' \<and>
        env' ''TRANSCEIVER_CHIP'' = Some (Str ''[SX1262]''))"
proof -
  let ?env = "predefined [''ARDUINO_LILYGO_T3S3_SX1262'', ''ESP32'', ''USE_LR1121'']"
  have g: "\<not> pp_defined ?env ''SENSOR_TRANSMITTER_H''"
    by (simp add: predefined_def pp_defined_def)
  have f: "find (pp_defined ?env) board_targets = Some ''ARDUINO_LILYGO_T3S3_SX1262''"
    by (simp add: predefined_def pp_defined_def board_targets_def)
  have n: "\<not> pp_defined ?env ''USE_CC1101''" "\<not> pp_defined ?env ''USE_SX1276''"
    by (simp_all add: predefined_def pp_defined_def)
  from board_target_family [OF g f] n
  have "\<exists>env'. SensorTransmitter_h ?env = Inr env' \<and>
        pp_defined env' ''USE_SX1262'' \<and>
        env' ''TRANSCEIVER_CHIP'' = Some (Str ''[SX1262]'')"
    by (simp add: Let_def)
  with f show ?thesis by (intro conjI)
qed

text \<open>
  Claim C5. In an ESP32 build whose board matches no branch of the pin chain before the
  generic one, the four transceiver pins are the generic ESP32 defaults: chip-select 27,
  IRQ 21, GPIO 33, reset 32. The three LilyGo T3S3 targets are such builds: their
  branches of the board chain define \<^verbatim>\<open>PIN_RECEIVER_CS\<close>, \<^verbatim>\<open>PIN_RECEIVER_IRQ\<close>,
  \<^verbatim>\<open>PIN_RECEIVER_GPIO\<close> and \<^verbatim>\<open>PIN_RECEIVER_RST\<close> (as \<^verbatim>\<open>LORA_CS\<close>, \<^verbatim>\<open>LORA_IRQ\<close>, \<^verbatim>\<open>LORA_BUSY\<close>
  and \<^verbatim>\<open>LORA_RST\<close>), which nothing in the header reads, and resolution goes through. The
  Firebeetle macro is excluded with the others, since its branch of the board chain
  defines \<^verbatim>\<open>FIREBEETLE_ESP32_COVER_LORA\<close>.
\<close>

theorem generic_ESP32_pins:
  assumes "\<not> pp_defined env ''SENSOR_TRANSMITTER_H''"
    and "pp_defined env ''ESP32''"
    and "\<forall>m\<in>set (''ARDUINO_DFROBOT_FIREBEETLE_ESP32'' # pins_before_ESP32). \<not> pp_defined env m"
  shows "(\<forall>env'. SensorTransmitter_h env = Inr env' \<longrightarrow>
            pin_set env' = [Some (Num 27), Some (Num 21), Some (Num 33), Some (Num 32)])
     \<and> ((\<exists>t\<in>set [''ARDUINO_LILYGO_T3S3_SX1262'', ''ARDUINO_LILYGO_T3S3_SX1276'',
                  ''ARDUINO_LILYGO_T3S3_LR1121'']. pp_defined env t) \<longrightarrow>
          (\<exists>env'. SensorTransmitter_h env = Inr env' \<and>
             map env' [''PIN_RECEIVER_CS'', ''PIN_RECEIVER_IRQ'', ''PIN_RECEIVER_GPIO'',
               ''PIN_RECEIVER_RST''] =
             [Some (Ident ''LORA_CS''), Some (Ident ''LORA_IRQ''), Some (Ident ''LORA_BUSY''),
              Some (Ident ''LORA_RST'')]))"
proof (intro conjI allI impI)
  fix env'
  assume r: "SensorTransmitter_h env = Inr env'"
  from assms(3) have n: "\<not> pp_defined env ''ARDUINO_DFROBOT_FIREBEETLE_ESP32''"
    "\<not> pp_defined env ''LORAWAN_NODE''" "\<not> pp_defined env ''FIREBEETLE_ESP32_COVER_LORA''"
    "\<not> pp_defined env ''ARDUINO_TTGO_LoRa32_V1''" "\<not> pp_defined env ''ARDUINO_TTGO_LoRa32_V2''"
    "\<not> pp_defined env ''ARDUINO_TTGO_LoRa32_v21new''"
    "\<not> pp_defined env ''ARDUINO_heltec_wireless_stick''"
    "\<not> pp_defined env ''ARDUINO_heltec_wifi_lora_32_V2''"
    "\<not> pp_defined env ''ARDUINO_ADAFRUIT_FEATHER_ESP32S2''"
    "\<not> pp_defined env ''ARDUINO_FEATHER_ESP32''"
    by (simp_all add: pins_before_ESP32_def)
  show "pin_set env' = [Some (Num 27), Some (Num 21), Some (Num 33), Some (Num 32)]"
    unfolding header_Inr [OF assms(1) r]
    by (simp add: result_pins n assms(2) find_not_defined [of "pp_defined env", OF n(1)])
next
  assume "\<exists>t\<in>set [''ARDUINO_LILYGO_T3S3_SX1262'', ''ARDUINO_LILYGO_T3S3_SX1276'',
                  ''ARDUINO_LILYGO_T3S3_LR1121'']. pp_defined env t"
  then have t: "pp_defined env ''ARDUINO_LILYGO_T3S3_SX1262''
      \<or> pp_defined env ''ARDUINO_LILYGO_T3S3_SX1276''
      \<or> pp_defined env ''ARDUINO_LILYGO_T3S3_LR1121''"
    by simp
  from assms(3) have n: "\<not> pp_defined env ''ARDUINO_TTGO_LoRa32_V1''"
    "\<not> pp_defined env ''ARDUINO_TTGO_LoRa32_V2''"
    "\<not> pp_defined env ''ARDUINO_TTGO_LoRa32_v21new''"
    by (simp_all add: pins_before_ESP32_def)
  define b where "b =
     (if pp_defined env ''ARDUINO_LILYGO_T3S3_SX1262'' then ''ARDUINO_LILYGO_T3S3_SX1262''
      else if pp_defined env ''ARDUINO_LILYGO_T3S3_SX1276'' then ''ARDUINO_LILYGO_T3S3_SX1276''
      else ''ARDUINO_LILYGO_T3S3_LR1121'')"
  have f: "find (pp_defined env) board_targets = Some b"
    using t n by (simp add: board_targets_def b_def) blast
  have b: "b \<in> {''ARDUINO_LILYGO_T3S3_SX1262'', ''ARDUINO_LILYGO_T3S3_SX1276'',
                  ''ARDUINO_LILYGO_T3S3_LR1121''}"
    by (simp add: b_def)
  from f have f': "find (pp_defined (start env)) board_targets = Some b"
    by (simp add: start_find)
  have ne: "radio_families (board (start env)) \<noteq> []"
    using f by (simp add: families_board_nonempty)
  have "map (board (start env)) [''PIN_RECEIVER_CS'', ''PIN_RECEIVER_IRQ'',
               ''PIN_RECEIVER_GPIO'', ''PIN_RECEIVER_RST''] =
             [Some (Ident ''LORA_CS''), Some (Ident ''LORA_IRQ''), Some (Ident ''LORA_BUSY''),
              Some (Ident ''LORA_RST'')]"
    using b by (auto simp add: board_branch [OF f'] pp_simps)
  then show "\<exists>env'. SensorTransmitter_h env = Inr env' \<and>
             map env' [''PIN_RECEIVER_CS'', ''PIN_RECEIVER_IRQ'', ''PIN_RECEIVER_GPIO'',
               ''PIN_RECEIVER_RST''] =
             [Some (Ident ''LORA_CS''), Some (Ident ''LORA_IRQ''), Some (Ident ''LORA_BUSY''),
              Some (Ident ''LORA_RST'')]"
    unfolding header_ok [OF assms(1) ne]
    by (simp add: result_other)
qed

theorem generic_ESP32_pins_witness:
  "pp_defined (predefined [''ARDUINO_LILYGO_T3S3_SX1262'', ''ESP32''])
     ''ARDUINO_LILYGO_T3S3_SX1262''
   \<and> (\<exists>env'. SensorTransmitter_h (predefined [''ARDUINO_LILYGO_T3S3_SX1262'', ''ESP32''])
              = Inr env' \<and>
         pin_set env' = [Some (Num 27), Some (Num 21), Some (Num 33), Some (Num 32)] \<and>
         map env' [''PIN_RECEIVER_CS'', ''PIN_RECEIVER_IRQ'', ''PIN_RECEIVER_GPIO'',
               ''PIN_RECEIVER_RST''] =
             [Some (Ident ''LORA_CS''), Some (Ident ''LORA_IRQ''), Some (Ident ''LORA_BUSY''),
              Some (Ident ''LORA_RST'')])"
proof -
  let ?env = "predefined [''ARDUINO_LILYGO_T3S3_SX1262'', ''ESP32'']"
  have g: "\<not> pp_defined ?env ''SENSOR_TRANSMITTER_H''"
    by (simp add: predefined_def pp_defined_def)
  have e: "pp_defined ?env ''ESP32''"
    by (simp add: predefined_def pp_defined_def)
  have n: "\<forall>m\<in>set (''ARDUINO_DFROBOT_FIREBEETLE_ESP32'' # pins_before_ESP32).
      \<not> pp_defined ?env m"
    by (simp add: predefined_def pp_defined_def pins_before_ESP32_def)
  have t: "pp_defined ?env ''ARDUINO_LILYGO_T3S3_SX1262''"
    by (simp add: predefined_def pp_defined_def)
  then have t': "\<exists>t\<in>set [''ARDUINO_LILYGO_T3S3_SX1262'', ''ARDUINO_LILYGO_T3S3_SX1276'',
      ''ARDUINO_LILYGO_T3S3_LR1121'']. pp_defined ?env t"
    by simp
  note c = generic_ESP32_pins [OF g e n]
  from c [THEN conjunct2, THEN mp, OF t']
  obtain env' where r: "SensorTransmitter_h ?env = Inr env'"
    and m: "map env' [''PIN_RECEIVER_CS'', ''PIN_RECEIVER_IRQ'', ''PIN_RECEIVER_GPIO'',
               ''PIN_RECEIVER_RST''] =
             [Some (Ident ''LORA_CS''), Some (Ident ''LORA_IRQ''), Some (Ident ''LORA_BUSY''),
              Some (Ident ''LORA_RST'')]"
    by (elim exE conjE)
  from c [THEN conjunct1, THEN spec, THEN mp, OF r]
  have p: "pin_set env' = [Some (Num 27), Some (Num 21), Some (Num 33), Some (Num 32)]" .
  from r p m have "\<exists>env'. SensorTransmitter_h ?env = Inr env' \<and>
         pin_set env' = [Some (Num 27), Some (Num 21), Some (Num 33), Some (Num 32)] \<and>
         map env' [''PIN_RECEIVER_CS'', ''PIN_RECEIVER_IRQ'', ''PIN_RECEIVER_GPIO'',
               ''PIN_RECEIVER_RST''] =
             [Some (Ident ''LORA_CS''), Some (Ident ''LORA_IRQ''), Some (Ident ''LORA_BUSY''),
              Some (Ident ''LORA_RST'')]"
    by (intro exI conjI)
  with t show ?thesis by (intro conjI)
qed




section \<open>What the header rejects\<close>

text \<open>
  The only \<^verbatim>\<open>#error\<close> of the header is the last branch of the radio transceiver chain.
  The claims of this section say that more is rejected; each is shown to fail on a build
  that the header accepts, and is followed by what the header does instead.
\<close>

text \<open>
  Claim C2 says that a build with more than one radio family selected fails. A build
  that selects two, CC1101 and SX1276, on a generic ESP32 board: the header does not
  stop, and settles on the CC1101.
\<close>

theorem two_radio_families_accepted:
  "radio_families (predefined [''ESP32'', ''USE_CC1101'', ''USE_SX1276''])
     = [''USE_CC1101'', ''USE_SX1276'']
   \<and> \<not> isl (SensorTransmitter_h (predefined [''ESP32'', ''USE_CC1101'', ''USE_SX1276'']))
   \<and> projr (SensorTransmitter_h (predefined [''ESP32'', ''USE_CC1101'', ''USE_SX1276'']))
       ''TRANSCEIVER_CHIP'' = Some (Str ''[CC1101]'')"
  by (simp add: header_eval)

text \<open>
  Claim C2, amended. If no radio family is selected, neither by a family macro of the
  build nor through a board target, resolution fails at build time with the message of the
  \<^verbatim>\<open>#error\<close>. In every other build it succeeds, also when more than one family macro is
  defined: \<^verbatim>\<open>TRANSCEIVER_CHIP\<close> is then the label of the first family defined, in the order
  CC1101, SX1276, SX1262, LR1121.
\<close>

theorem radio_family_resolution:
  assumes "\<not> pp_defined env ''SENSOR_TRANSMITTER_H''"
  shows "if radio_families env = [] \<and> find (pp_defined env) board_targets = None
     then SensorTransmitter_h env =
            Inl ''Either USE_CC1101, USE_SX1276, USE_SX1262 or USE_LR1121 must be defined!''
     else \<exists>env'. SensorTransmitter_h env = Inr env' \<and>
            radio_families env' \<noteq> [] \<and>
            env' ''TRANSCEIVER_CHIP'' =
              Some (Str (''['' @ drop 4 (hd (radio_families env')) @ '']''))"
proof (cases "radio_families (board (start env)) = []")
  case True
  with header_fail [OF assms True] show ?thesis
    by (simp add: families_board_nonempty)
next
  case False
  with header_ok [OF assms False] show ?thesis
    by (simp add: families_board_nonempty result_families result_chip)
qed

theorem radio_family_resolution_witness:
  "SensorTransmitter_h (predefined [''ESP32'']) =
     Inl ''Either USE_CC1101, USE_SX1276, USE_SX1262 or USE_LR1121 must be defined!''
   \<and> (\<exists>env'. SensorTransmitter_h (predefined [''ESP8266'', ''USE_SX1262'', ''USE_LR1121''])
              = Inr env' \<and>
         radio_families env' \<noteq> [] \<and>
         env' ''TRANSCEIVER_CHIP'' =
           Some (Str (''['' @ drop 4 (hd (radio_families env')) @ '']'')))"
proof -
  let ?none = "predefined [''ESP32'']"
  let ?two = "predefined [''ESP8266'', ''USE_SX1262'', ''USE_LR1121'']"
  have g1: "\<not> pp_defined ?none ''SENSOR_TRANSMITTER_H''"
    by (simp add: predefined_def pp_defined_def)
  have g2: "\<not> pp_defined ?two ''SENSOR_TRANSMITTER_H''"
    by (simp add: predefined_def pp_defined_def)
  have n1: "radio_families ?none = [] \<and> find (pp_defined ?none) board_targets = None"
    by (simp add: predefined_def pp_defined_def radio_families_def board_targets_def)
  have n2: "\<not> (radio_families ?two = [] \<and> find (pp_defined ?two) board_targets = None)"
    by (simp add: predefined_def pp_defined_def radio_families_def)
  from radio_family_resolution [OF g1] n1
  have 1: "SensorTransmitter_h ?none =
     Inl ''Either USE_CC1101, USE_SX1276, USE_SX1262 or USE_LR1121 must be defined!''"
    by (simp only: if_True)
  from radio_family_resolution [OF g2] n2
  have 2: "\<exists>env'. SensorTransmitter_h ?two = Inr env' \<and>
         radio_families env' \<noteq> [] \<and>
         env' ''TRANSCEIVER_CHIP'' =
           Some (Str (''['' @ drop 4 (hd (radio_families env')) @ '']''))"
    by (simp only: if_False)
  from 1 2 show ?thesis by (intro conjI)
qed

text \<open>
  Claim C3 says that a build with more than one payload source selected fails. A build
  that selects the raw payload source on the command line: the header defines
  \<^verbatim>\<open>DATA_JSON_INPUT\<close> as well and does not stop, so two payload sources are selected.
\<close>

theorem two_payload_sources_accepted:
  "\<not> isl (SensorTransmitter_h (predefined [''ESP32'', ''USE_SX1276'', ''DATA_RAW'']))
   \<and> payload_sources
        (projr (SensorTransmitter_h (predefined [''ESP32'', ''USE_SX1276'', ''DATA_RAW''])))
       = [''DATA_RAW'', ''DATA_JSON_INPUT'']"
  by (simp add: header_eval)

text \<open>
  Claim C3, amended. The header makes \<^verbatim>\<open>DATA_JSON_INPUT\<close> a selected payload source in every
  build and checks nothing about the payload source group: each of \<^verbatim>\<open>DATA_RAW\<close>, \<^verbatim>\<open>DATA_GEN\<close>
  and \<^verbatim>\<open>DATA_JSON_CONST\<close> is defined after resolution exactly if the build defined it, and
  defining any payload source macro in a build never changes whether resolution fails.
\<close>

theorem payload_source_not_checked:
  assumes "\<not> pp_defined env ''SENSOR_TRANSMITTER_H''"
  shows "(\<forall>env'. SensorTransmitter_h env = Inr env' \<longrightarrow>
            pp_defined env' ''DATA_JSON_INPUT'' \<and>
            (\<forall>d\<in>set [''DATA_RAW'', ''DATA_GEN'', ''DATA_JSON_CONST''].
               pp_defined env' d = pp_defined env d))
     \<and> (\<forall>d\<in>set [''DATA_RAW'', ''DATA_GEN'', ''DATA_JSON_CONST'', ''DATA_JSON_INPUT''].
          \<forall>body. isl (SensorTransmitter_h (pp_define d body env))
                   = isl (SensorTransmitter_h env))"
proof (intro conjI allI impI ballI)
  fix env'
  assume r: "SensorTransmitter_h env = Inr env'"
  show "pp_defined env' ''DATA_JSON_INPUT''"
    unfolding header_Inr [OF assms r]
    by (simp add: result_defined) (simp add: pp_defined_def board_start_fixed)
next
  fix env' d
  assume r: "SensorTransmitter_h env = Inr env'"
    and d: "d \<in> set [''DATA_RAW'', ''DATA_GEN'', ''DATA_JSON_CONST'']"
  then show "pp_defined env' d = pp_defined env d"
    unfolding header_Inr [OF assms r]
    by (auto simp add: result_defined) (simp_all add: pp_defined_def board_start_other)
next
  fix d body
  assume d: "d \<in> set [''DATA_RAW'', ''DATA_GEN'', ''DATA_JSON_CONST'', ''DATA_JSON_INPUT'']"
  have g: "\<not> pp_defined (pp_define d body env) ''SENSOR_TRANSMITTER_H''"
    unfolding define_payload_guard [OF d] by (rule assms)
  show "isl (SensorTransmitter_h (pp_define d body env)) = isl (SensorTransmitter_h env)"
    by (simp only: header_isl [OF g] header_isl [OF assms] define_payload_families [OF d]
        define_payload_find [OF d])
qed

theorem payload_source_not_checked_witness:
  "\<not> isl (SensorTransmitter_h (predefined [''USE_SX1276'', ''DATA_GEN'']))
   \<and> pp_defined (projr (SensorTransmitter_h (predefined [''USE_SX1276'', ''DATA_GEN''])))
         ''DATA_JSON_INPUT''
   \<and> pp_defined (projr (SensorTransmitter_h (predefined [''USE_SX1276'', ''DATA_GEN''])))
         ''DATA_GEN''
   \<and> \<not> pp_defined (projr (SensorTransmitter_h (predefined [''USE_SX1276'', ''DATA_GEN''])))
         ''DATA_RAW''
   \<and> \<not> isl (SensorTransmitter_h
              (pp_define ''DATA_RAW'' Empty (predefined [''USE_SX1276'', ''DATA_GEN''])))"
proof -
  let ?env = "predefined [''USE_SX1276'', ''DATA_GEN'']"
  have g: "\<not> pp_defined ?env ''SENSOR_TRANSMITTER_H''"
    by (simp add: predefined_def pp_defined_def)
  have ok: "\<not> isl (SensorTransmitter_h ?env)"
    by (simp add: header_isl [OF g]) (simp add: header_eval)
  then have r: "SensorTransmitter_h ?env = Inr (projr (SensorTransmitter_h ?env))"
    by simp
  have d: "pp_defined ?env ''DATA_GEN''" "\<not> pp_defined ?env ''DATA_RAW''"
    by (simp_all add: predefined_def pp_defined_def)
  note c = payload_source_not_checked [OF g]
  from c [THEN conjunct1, THEN spec, THEN mp, OF r]
  have 1: "pp_defined (projr (SensorTransmitter_h ?env)) ''DATA_JSON_INPUT''"
    and 2: "\<forall>d\<in>set [''DATA_RAW'', ''DATA_GEN'', ''DATA_JSON_CONST''].
              pp_defined (projr (SensorTransmitter_h ?env)) d = pp_defined ?env d"
    by (rule conjunct1, rule conjunct2)
  from 2 d have 3: "pp_defined (projr (SensorTransmitter_h ?env)) ''DATA_GEN''"
    and 4: "\<not> pp_defined (projr (SensorTransmitter_h ?env)) ''DATA_RAW''"
    by simp_all
  from c [THEN conjunct2] have "isl (SensorTransmitter_h (pp_define ''DATA_RAW'' Empty ?env))
      = isl (SensorTransmitter_h ?env)"
    by simp
  with ok have 5: "\<not> isl (SensorTransmitter_h (pp_define ''DATA_RAW'' Empty ?env))"
    by simp
  from ok 1 3 4 5 show ?thesis by (intro conjI)
qed

text \<open>
  Claim C4 says that a Firebeetle build that specifies both \<^verbatim>\<open>LORAWAN_NODE\<close> and
  \<^verbatim>\<open>FIREBEETLE_ESP32_COVER_LORA\<close> fails. In a build for the Firebeetle with \<^verbatim>\<open>LORAWAN_NODE\<close>
  set, line 197 defines \<^verbatim>\<open>FIREBEETLE_ESP32_COVER_LORA\<close> too: the header does not stop, both
  macros are defined at the end, and the pins are those of the \<^verbatim>\<open>LORAWAN_NODE\<close> branch.
\<close>

theorem firebeetle_both_variants_accepted:
  "\<not> isl (SensorTransmitter_h
        (predefined [''ARDUINO_DFROBOT_FIREBEETLE_ESP32'', ''ESP32'', ''LORAWAN_NODE'']))
   \<and> pp_defined (projr (SensorTransmitter_h
        (predefined [''ARDUINO_DFROBOT_FIREBEETLE_ESP32'', ''ESP32'', ''LORAWAN_NODE''])))
        ''LORAWAN_NODE''
   \<and> pp_defined (projr (SensorTransmitter_h
        (predefined [''ARDUINO_DFROBOT_FIREBEETLE_ESP32'', ''ESP32'', ''LORAWAN_NODE''])))
        ''FIREBEETLE_ESP32_COVER_LORA''
   \<and> pin_set (projr (SensorTransmitter_h
        (predefined [''ARDUINO_DFROBOT_FIREBEETLE_ESP32'', ''ESP32'', ''LORAWAN_NODE''])))
       = [Some (Num 14), Some (Num 4), Some (Num 16), Some (Num 12)]"
  by (simp add: header_eval)

text \<open>
  Claim C4, amended. A build for the DFRobot Firebeetle ESP32 that specifies both
  \<^verbatim>\<open>LORAWAN_NODE\<close> and \<^verbatim>\<open>FIREBEETLE_ESP32_COVER_LORA\<close> does not fail: resolution completes
  with both macros defined and the SX1276 selected.
\<close>

theorem firebeetle_both_variants_resolve:
  assumes "\<not> pp_defined env ''SENSOR_TRANSMITTER_H''"
    and "find (pp_defined env) board_targets = Some ''ARDUINO_DFROBOT_FIREBEETLE_ESP32''"
    and "pp_defined env ''LORAWAN_NODE''"
  shows "\<exists>env'. SensorTransmitter_h env = Inr env' \<and>
     pp_defined env' ''LORAWAN_NODE'' \<and>
     pp_defined env' ''FIREBEETLE_ESP32_COVER_LORA'' \<and>
     pp_defined env' ''USE_SX1276''"
proof -
  from assms(2) have f: "find (pp_defined (start env)) board_targets
      = Some ''ARDUINO_DFROBOT_FIREBEETLE_ESP32''"
    by (simp add: start_find)
  have ne: "radio_families (board (start env)) \<noteq> []"
    using assms(2) by (simp add: families_board_nonempty)
  show ?thesis
    unfolding header_ok [OF assms(1) ne]
    using assms(3)
    by (simp add: result_defined board_USE(2,5) [OF f] pin_conditions_after_board(1)
        board_family_def)
qed

theorem firebeetle_both_variants_resolve_witness:
  "find (pp_defined (predefined [''ARDUINO_DFROBOT_FIREBEETLE_ESP32'', ''LORAWAN_NODE'']))
     board_targets = Some ''ARDUINO_DFROBOT_FIREBEETLE_ESP32''
   \<and> pp_defined (predefined [''ARDUINO_DFROBOT_FIREBEETLE_ESP32'', ''LORAWAN_NODE''])
        ''LORAWAN_NODE''
   \<and> (\<exists>env'. SensorTransmitter_h
               (predefined [''ARDUINO_DFROBOT_FIREBEETLE_ESP32'', ''LORAWAN_NODE'']) = Inr env' \<and>
         pp_defined env' ''LORAWAN_NODE'' \<and>
         pp_defined env' ''FIREBEETLE_ESP32_COVER_LORA'' \<and>
         pp_defined env' ''USE_SX1276'')"
proof -
  let ?env = "predefined [''ARDUINO_DFROBOT_FIREBEETLE_ESP32'', ''LORAWAN_NODE'']"
  have g: "\<not> pp_defined ?env ''SENSOR_TRANSMITTER_H''"
    by (simp add: predefined_def pp_defined_def)
  have f: "find (pp_defined ?env) board_targets = Some ''ARDUINO_DFROBOT_FIREBEETLE_ESP32''"
    by (simp add: predefined_def pp_defined_def board_targets_def)
  have l: "pp_defined ?env ''LORAWAN_NODE''"
    by (simp add: predefined_def pp_defined_def)
  from f l firebeetle_both_variants_resolve [OF g f l] show ?thesis
    by (intro conjI)
qed

text \<open>
  Claim C6 says that a board selection outside the named targets is rejected at build
  time. A build for an ESP32 board that no branch of the board chain names, with the
  SX1276 selected: the header does not stop, and the build gets a radio family and the
  four generic ESP32 pins, so nothing keeps it from running.
\<close>

theorem unnamed_board_accepted:
  "find (pp_defined (predefined [''ARDUINO_ESP32_THING'', ''ESP32'', ''USE_SX1276'']))
     board_targets = None
   \<and> \<not> isl (SensorTransmitter_h (predefined [''ARDUINO_ESP32_THING'', ''ESP32'', ''USE_SX1276'']))
   \<and> projr (SensorTransmitter_h (predefined [''ARDUINO_ESP32_THING'', ''ESP32'', ''USE_SX1276'']))
       ''TRANSCEIVER_CHIP'' = Some (Str ''[SX1276]'')
   \<and> pin_set
        (projr (SensorTransmitter_h (predefined [''ARDUINO_ESP32_THING'', ''ESP32'', ''USE_SX1276''])))
       = [Some (Num 27), Some (Num 21), Some (Num 33), Some (Num 32)]"
  by (simp add: header_eval)

text \<open>
  Claim C6, amended. The header rejects a build at build time exactly if no radio family
  is selected, neither by a family macro of the build nor through a board target. A board
  selection outside the targets of the board chain is not rejected on that account: with
  a radio family selected, and none of the wiring macros of the earlier pin branches
  set, a build for ESP32 or ESP8266 resolves with the generic pins of that platform.
\<close>

theorem rejection_only_for_missing_family:
  assumes "\<not> pp_defined env ''SENSOR_TRANSMITTER_H''"
  shows "(isl (SensorTransmitter_h env) \<longleftrightarrow>
            radio_families env = [] \<and> find (pp_defined env) board_targets = None)
     \<and> (find (pp_defined env) board_targets = None \<and> radio_families env \<noteq> [] \<and>
          (\<forall>m\<in>set pins_before_ESP32. \<not> pp_defined env m) \<and>
          (pp_defined env ''ESP32'' \<or> pp_defined env ''ESP8266'') \<longrightarrow>
          (\<exists>env'. SensorTransmitter_h env = Inr env' \<and>
             pin_set env' =
               (if pp_defined env ''ESP32'' then
                  [Some (Num 27), Some (Num 21), Some (Num 33), Some (Num 32)]
                else
                  [Some (Num 15), Some (Num 4), Some (Num 5), Some (Num 2)])))"
proof (intro conjI impI)
  show "isl (SensorTransmitter_h env) \<longleftrightarrow>
            radio_families env = [] \<and> find (pp_defined env) board_targets = None"
    by (rule header_isl [OF assms])
next
  assume a: "find (pp_defined env) board_targets = None \<and> radio_families env \<noteq> [] \<and>
          (\<forall>m\<in>set pins_before_ESP32. \<not> pp_defined env m) \<and>
          (pp_defined env ''ESP32'' \<or> pp_defined env ''ESP8266'')"
  then have ne: "radio_families (board (start env)) \<noteq> []"
    by (simp add: families_board_nonempty)
  from a have f: "find (pp_defined env) board_targets = None" by simp
  from a have p: "pp_defined env ''ESP32'' \<or> pp_defined env ''ESP8266''" by simp
  from a have m: "\<not> pp_defined env ''LORAWAN_NODE''"
    "\<not> pp_defined env ''FIREBEETLE_ESP32_COVER_LORA''"
    "\<not> pp_defined env ''ARDUINO_TTGO_LoRa32_V1''" "\<not> pp_defined env ''ARDUINO_TTGO_LoRa32_V2''"
    "\<not> pp_defined env ''ARDUINO_TTGO_LoRa32_v21new''"
    "\<not> pp_defined env ''ARDUINO_heltec_wireless_stick''"
    "\<not> pp_defined env ''ARDUINO_heltec_wifi_lora_32_V2''"
    "\<not> pp_defined env ''ARDUINO_ADAFRUIT_FEATHER_ESP32S2''"
    "\<not> pp_defined env ''ARDUINO_FEATHER_ESP32''"
    by (simp_all add: pins_before_ESP32_def)
  show "\<exists>env'. SensorTransmitter_h env = Inr env' \<and>
             pin_set env' =
               (if pp_defined env ''ESP32'' then
                  [Some (Num 27), Some (Num 21), Some (Num 33), Some (Num 32)]
                else
                  [Some (Num 15), Some (Num 4), Some (Num 5), Some (Num 2)])"
    unfolding header_ok [OF assms ne]
    using p by (simp add: result_pins m f) blast
qed

theorem rejection_only_for_missing_family_witness:
  "isl (SensorTransmitter_h (predefined [''ESP8266'']))
   \<and> \<not> isl (SensorTransmitter_h (predefined [''ESP8266'', ''USE_CC1101'']))
   \<and> (\<exists>env'. SensorTransmitter_h (predefined [''ESP8266'', ''USE_CC1101'']) = Inr env' \<and>
         pin_set env' = [Some (Num 15), Some (Num 4), Some (Num 5), Some (Num 2)])"
proof -
  let ?none = "predefined [''ESP8266'']"
  let ?env = "predefined [''ESP8266'', ''USE_CC1101'']"
  have g0: "\<not> pp_defined ?none ''SENSOR_TRANSMITTER_H''"
    by (simp add: predefined_def pp_defined_def)
  have g: "\<not> pp_defined ?env ''SENSOR_TRANSMITTER_H''"
    by (simp add: predefined_def pp_defined_def)
  have n0: "radio_families ?none = [] \<and> find (pp_defined ?none) board_targets = None"
    by (simp add: predefined_def pp_defined_def radio_families_def board_targets_def)
  have f: "find (pp_defined ?env) board_targets = None"
    by (simp add: predefined_def pp_defined_def board_targets_def)
  have r: "radio_families ?env \<noteq> []"
    by (simp add: predefined_def pp_defined_def radio_families_def)
  have m: "\<forall>m\<in>set pins_before_ESP32. \<not> pp_defined ?env m"
    by (simp add: predefined_def pp_defined_def pins_before_ESP32_def)
  have p: "pp_defined ?env ''ESP32'' \<or> pp_defined ?env ''ESP8266''"
    "\<not> pp_defined ?env ''ESP32''"
    by (simp_all add: predefined_def pp_defined_def)
  from rejection_only_for_missing_family [OF g0, THEN conjunct1] n0
  have 1: "isl (SensorTransmitter_h ?none)"
    by simp
  from rejection_only_for_missing_family [OF g, THEN conjunct1] r
  have 2: "\<not> isl (SensorTransmitter_h ?env)"
    by simp
  from f r m p(1) have h: "find (pp_defined ?env) board_targets = None \<and>
      radio_families ?env \<noteq> [] \<and> (\<forall>m\<in>set pins_before_ESP32. \<not> pp_defined ?env m) \<and>
      (pp_defined ?env ''ESP32'' \<or> pp_defined ?env ''ESP8266'')"
    by (intro conjI)
  from rejection_only_for_missing_family [OF g, THEN conjunct2, THEN mp, OF h] p(2)
  have 3: "\<exists>env'. SensorTransmitter_h ?env = Inr env' \<and>
         pin_set env' = [Some (Num 15), Some (Num 4), Some (Num 5), Some (Num 2)]"
    by (simp only: if_False)
  from 1 2 3 show ?thesis by (intro conjI)
qed

section \<open>The encoder kinds\<close>




end
